theory Spec2Isabelle
  imports Main
begin

section \<open>Errors, panics and results\<close>

text \<open>
  The handlers of \<^verbatim>\<open>mockgcp/mocklogging/logginglink.go\<close> return a value and an error.
  An error is either a gRPC status built by \<^verbatim>\<open>status.Errorf(code, format, args...)\<close>,
  kept here as the code, the format string and the arguments (the rendering of \<^verbatim>\<open>%q\<close>
  is not needed to tell which value an error names), or a run-time panic of Go: a nil
  pointer dereference, an index out of range, or a failed type assertion.
\<close>

datatype codes = InvalidArgument | NotFound | AlreadyExists | Unknown

datatype panic =
    NilPointerDereference
  | IndexOutOfRange nat nat
  | InterfaceConversion string string

datatype error = Status codes string "string list" | Panic panic

definition bindE :: "error + 'a \<Rightarrow> ('a \<Rightarrow> error + 'b) \<Rightarrow> error + 'b" where
  "bindE r f = (case r of Inl e \<Rightarrow> Inl e | Inr v \<Rightarrow> f v)"

section \<open>The resource name codec\<close>

text \<open>
  \<^verbatim>\<open>projects.ProjectData\<close> is declared outside the files at hand; the codec reads its
  \<^verbatim>\<open>ID\<close> field only. The \<^verbatim>\<open>project\<close> field of \<^verbatim>\<open>loggingLinkName\<close> is a pointer:
  \<open>None\<close> is \<^verbatim>\<open>nil\<close>.
\<close>

record ProjectData =
  ID :: string

record loggingLinkName =
  project :: "ProjectData option"
  folder :: string
  organization :: string
  billingAccount :: string
  location :: string
  BucketName :: string
  LinkName :: string

text \<open>
  \<^verbatim>\<open>func (n *loggingLinkName) String() string\<close>. The last branch reads
  \<^verbatim>\<open>n.project.ID\<close> through the pointer, which panics when the pointer is nil.
\<close>

definition loggingLinkName_String :: "loggingLinkName \<Rightarrow> error + string" where
  "loggingLinkName_String n =
     (if organization n \<noteq> [] then
        Inr (''organizations/'' @ organization n @ ''/locations/'' @ location n
             @ ''/buckets/'' @ BucketName n @ ''/links/'' @ LinkName n)
      else if folder n \<noteq> [] then
        Inr (''folders/'' @ folder n @ ''/locations/'' @ location n
             @ ''/buckets/'' @ BucketName n @ ''/links/'' @ LinkName n)
      else if billingAccount n \<noteq> [] then
        Inr (''billingAccounts/'' @ billingAccount n @ ''/locations/'' @ location n
             @ ''/buckets/'' @ BucketName n @ ''/links/'' @ LinkName n)
      else
        (case project n of
           None \<Rightarrow> Inl (Panic NilPointerDereference)
         | Some p \<Rightarrow>
             Inr (''projects/'' @ ID p @ ''/locations/'' @ location n
                  @ ''/buckets/'' @ BucketName n @ ''/links/'' @ LinkName n)))"

text \<open>
  \<^verbatim>\<open>strings.Split(name, "/")\<close>: the pieces between the separators, in order; a string
  without separator is one piece, and so is the empty string.
\<close>

fun strings_Split :: "string \<Rightarrow> char \<Rightarrow> string list" where
  "strings_Split [] sep = [[]]"
| "strings_Split (c # cs) sep =
     (if c = sep then [] # strings_Split cs sep
      else (case strings_Split cs sep of
              [] \<Rightarrow> [[c]]
            | t # ts \<Rightarrow> (c # t) # ts))"

text \<open>
  \<^verbatim>\<open>tokens[i]\<close> panics out of range, and \<^verbatim>\<open>&&\<close> evaluates its right operand only
  when the left one is true.
\<close>

definition index :: "string list \<Rightarrow> nat \<Rightarrow> error + string" where
  "index tokens i =
     (if i < length tokens then Inr (tokens ! i)
      else Inl (Panic (IndexOutOfRange i (length tokens))))"

definition token_is :: "string list \<Rightarrow> nat \<Rightarrow> string \<Rightarrow> error + bool" where
  "token_is tokens i s = bindE (index tokens i) (\<lambda>t. Inr (t = s))"

definition and_also :: "error + bool \<Rightarrow> error + bool \<Rightarrow> error + bool" where
  "and_also a b = bindE a (\<lambda>x. if x then b else Inr False)"

text \<open>
  The condition of each branch of \<^verbatim>\<open>parseLoggingLinkName\<close>:
  \<^verbatim>\<open>len(tokens) == n && tokens[0] == kind && tokens[2] == "locations" &&
  tokens[4] == "buckets" && tokens[6] == "links"\<close>.
\<close>

definition shape :: "string list \<Rightarrow> nat \<Rightarrow> string \<Rightarrow> error + bool" where
  "shape tokens n kind =
     and_also (Inr (length tokens = n))
    (and_also (token_is tokens 0 kind)
    (and_also (token_is tokens 2 ''locations'')
    (and_also (token_is tokens 4 ''buckets'')
              (token_is tokens 6 ''links''))))"

text \<open>
  \<^verbatim>\<open>func (s *MockService) parseLoggingLinkName(name string) (*loggingLinkName, error)\<close>.
  The file holds the function twice, word for word; this is both. The project resolver
  \<^verbatim>\<open>s.Projects.GetProjectByID\<close> is a collaborator outside the files at hand and is a
  parameter: it returns a project record or an error. The branches for organizations
  and billing accounts ask for six tokens, the other two for eight.
\<close>

definition parseLoggingLinkName ::
  "(string \<Rightarrow> error + ProjectData) \<Rightarrow> string \<Rightarrow> error + loggingLinkName" where
  "parseLoggingLinkName GetProjectByID name =
     (let tokens = strings_Split name CHR ''/'' in
      bindE (shape tokens 8 ''projects'') (\<lambda>c1.
      if c1 then
        bindE (index tokens 1) (\<lambda>t1.
        bindE (GetProjectByID t1) (\<lambda>p.
        bindE (index tokens 3) (\<lambda>t3.
        bindE (index tokens 5) (\<lambda>t5.
        bindE (index tokens 7) (\<lambda>t7.
        Inr \<lparr>project = Some p, folder = [], organization = [], billingAccount = [],
             location = t3, BucketName = t5, LinkName = t7\<rparr>)))))
      else
      bindE (shape tokens 8 ''folders'') (\<lambda>c2.
      if c2 then
        bindE (index tokens 1) (\<lambda>t1.
        bindE (index tokens 3) (\<lambda>t3.
        bindE (index tokens 5) (\<lambda>t5.
        bindE (index tokens 7) (\<lambda>t7.
        Inr \<lparr>project = None, folder = t1, organization = [], billingAccount = [],
             location = t3, BucketName = t5, LinkName = t7\<rparr>))))
      else
      bindE (shape tokens 6 ''organizations'') (\<lambda>c3.
      if c3 then
        bindE (index tokens 1) (\<lambda>t1.
        bindE (index tokens 3) (\<lambda>t3.
        bindE (index tokens 5) (\<lambda>t5.
        bindE (index tokens 7) (\<lambda>t7.
        Inr \<lparr>project = None, folder = [], organization = t1, billingAccount = [],
             location = t3, BucketName = t5, LinkName = t7\<rparr>))))
      else
      bindE (shape tokens 6 ''billingAccounts'') (\<lambda>c4.
      if c4 then
        bindE (index tokens 1) (\<lambda>t1.
        bindE (index tokens 3) (\<lambda>t3.
        bindE (index tokens 5) (\<lambda>t5.
        bindE (index tokens 7) (\<lambda>t7.
        Inr \<lparr>project = None, folder = [], organization = [], billingAccount = t1,
             location = t3, BucketName = t5, LinkName = t7\<rparr>))))
      else
        Inl (Status InvalidArgument ''name %q is not valid'' [name]))))))"

section \<open>Messages of the mock service\<close>

text \<open>
  The generated package \<^verbatim>\<open>pb\<close> is outside the files at hand. The handlers read and
  write these fields: \<^verbatim>\<open>Name\<close>, \<^verbatim>\<open>Description\<close>, \<^verbatim>\<open>CreateTime\<close> and
  \<^verbatim>\<open>LifecycleState\<close> on all three messages, \<^verbatim>\<open>UpdateTime\<close> on \<^verbatim>\<open>pb.LoggingLink\<close> and
  \<^verbatim>\<open>pb.LogBucket\<close>, \<^verbatim>\<open>RetentionDays\<close> on \<^verbatim>\<open>pb.LogBucket\<close>; a link also holds its reference to a
  BigQuery dataset, which no handler touches. The records share their common fields, so that
  \<^verbatim>\<open>populateDefaultsForLoggingLink\<close>, which the file defines twice with one body, is one
  definition, and so that the statements which \<^verbatim>\<open>UpdateLoggingLink\<close> applies to a
  \<^verbatim>\<open>*pb.LogBucket\<close> can be written as they stand. A timestamp pointer is an option; a
  time is a number of nanoseconds.
\<close>

datatype LifecycleState = LIFECYCLE_STATE_UNSPECIFIED | ACTIVE | LifecycleState_other nat

type_synonym timestamp = int

record pb_fields =
  Name :: string
  Description :: string
  CreateTime :: "timestamp option"
  LifecycleState :: LifecycleState

record LoggingLink = pb_fields +
  UpdateTime :: "timestamp option"

record LogBucket = LoggingLink +
  RetentionDays :: int

record BigQueryDataset =
  DatasetId :: string

record Link = pb_fields +
  BigqueryDataset :: "BigQueryDataset option"

text \<open>
  \<^verbatim>\<open>proto.Clone\<close> returns a \<^verbatim>\<open>proto.Message\<close>, an interface value that carries the
  dynamic type of the message cloned. A type assertion \<^verbatim>\<open>m.(*pb.T)\<close> with one result
  panics unless the dynamic type is \<^verbatim>\<open>*pb.T\<close>.
\<close>

datatype message =
    LoggingLinkMessage "LoggingLink option"
  | LogBucketMessage "LogBucket option"
  | LinkMessage "Link option"

definition proto_Clone :: "message \<Rightarrow> message" where
  "proto_Clone m = m"

fun assert_LoggingLink :: "message \<Rightarrow> error + LoggingLink option" where
  "assert_LoggingLink (LoggingLinkMessage m) = Inr m"
| "assert_LoggingLink (LogBucketMessage m) =
     Inl (Panic (InterfaceConversion ''*pb.LogBucket'' ''*pb.LoggingLink''))"
| "assert_LoggingLink (LinkMessage m) =
     Inl (Panic (InterfaceConversion ''*pb.Link'' ''*pb.LoggingLink''))"

fun assert_LogBucket :: "message \<Rightarrow> error + LogBucket option" where
  "assert_LogBucket (LogBucketMessage m) = Inr m"
| "assert_LogBucket (LoggingLinkMessage m) =
     Inl (Panic (InterfaceConversion ''*pb.LoggingLink'' ''*pb.LogBucket''))"
| "assert_LogBucket (LinkMessage m) =
     Inl (Panic (InterfaceConversion ''*pb.Link'' ''*pb.LogBucket''))"

fun assert_Link :: "message \<Rightarrow> error + Link option" where
  "assert_Link (LinkMessage m) = Inr m"
| "assert_Link (LoggingLinkMessage m) =
     Inl (Panic (InterfaceConversion ''*pb.LoggingLink'' ''*pb.Link''))"
| "assert_Link (LogBucketMessage m) =
     Inl (Panic (InterfaceConversion ''*pb.LogBucket'' ''*pb.Link''))"

text \<open>Writing a field through a nil message pointer panics.\<close>

definition deref :: "'a option \<Rightarrow> error + 'a" where
  "deref p = (case p of None \<Rightarrow> Inl (Panic NilPointerDereference) | Some v \<Rightarrow> Inr v)"

text \<open>\<^verbatim>\<open>status.Code(err)\<close>.\<close>

fun status_Code :: "error \<Rightarrow> codes" where
  "status_Code (Status c f args) = c"
| "status_Code (Panic p) = Unknown"

section \<open>The storage collaborator and the service state\<close>

text \<open>
  The storage engine behind \<^verbatim>\<open>s.storage\<close> is outside the files at hand. The spec
  gives it as a generic object store keyed by fully-qualified name, supporting Get,
  Create, Update and Delete with existence-checking semantics. The text of its messages
  is not given and is left empty. Each kind of message has its own keyed store.
\<close>

text \<open>
  Modelled from the spec: \<^verbatim>\<open>storage.Get\<close>, absent from the files at hand; a miss is
  \<^verbatim>\<open>NotFound\<close>.
\<close>

definition storage_Get :: "(string \<rightharpoonup> 'a) \<Rightarrow> string \<Rightarrow> error + 'a" where
  "storage_Get m fqn = (case m fqn of None \<Rightarrow> Inl (Status NotFound [] []) | Some v \<Rightarrow> Inr v)"

text \<open>
  Modelled from the spec: \<^verbatim>\<open>storage.Create\<close>, absent from the files at hand; a
  duplicate key is \<^verbatim>\<open>AlreadyExists\<close>.
\<close>

definition storage_Create :: "(string \<rightharpoonup> 'a) \<Rightarrow> string \<Rightarrow> 'a \<Rightarrow> error + (string \<rightharpoonup> 'a)" where
  "storage_Create m fqn obj =
     (case m fqn of None \<Rightarrow> Inr (m(fqn \<mapsto> obj)) | Some v \<Rightarrow> Inl (Status AlreadyExists [] []))"

text \<open>
  Modelled from the spec: \<^verbatim>\<open>storage.Update\<close>, absent from the files at hand; it
  replaces an existing record, and a miss is \<^verbatim>\<open>NotFound\<close>.
\<close>

definition storage_Update :: "(string \<rightharpoonup> 'a) \<Rightarrow> string \<Rightarrow> 'a \<Rightarrow> error + (string \<rightharpoonup> 'a)" where
  "storage_Update m fqn obj =
     (case m fqn of None \<Rightarrow> Inl (Status NotFound [] []) | Some v \<Rightarrow> Inr (m(fqn \<mapsto> obj)))"

text \<open>
  Modelled from the spec: \<^verbatim>\<open>storage.Delete\<close>, absent from the files at hand; it
  removes an existing record, and a miss is \<^verbatim>\<open>NotFound\<close>.
\<close>

definition storage_Delete :: "(string \<rightharpoonup> 'a) \<Rightarrow> string \<Rightarrow> error + (string \<rightharpoonup> 'a)" where
  "storage_Delete m fqn =
     (case m fqn of None \<Rightarrow> Inl (Status NotFound [] []) | Some v \<Rightarrow> Inr (m(fqn := None)))"

record MockService =
  Projects :: "string \<Rightarrow> error + ProjectData"
  storage_LoggingLink :: "string \<rightharpoonup> LoggingLink"
  storage_LogBucket :: "string \<rightharpoonup> LogBucket"
  storage_Link :: "string \<rightharpoonup> Link"

text \<open>
  Modelled from the spec: \<^verbatim>\<open>createBucketIfNotExists\<close> lives in the log bucket file,
  outside the files at hand. The spec gives it as an idempotent create-if-not-exists.
\<close>

definition createBucketIfNotExists :: "MockService \<Rightarrow> LogBucket \<Rightarrow> (error + unit) \<times> MockService" where
  "createBucketIfNotExists s bucket =
     (case storage_LogBucket s (Name bucket) of
        Some b \<Rightarrow> (Inr (), s)
      | None \<Rightarrow> (Inr (), s\<lparr>storage_LogBucket := (storage_LogBucket s)(Name bucket \<mapsto> bucket)\<rparr>))"

text \<open>
  Modelled from the spec: \<^verbatim>\<open>populateDefaultsForLogBucket\<close> lives in the log bucket
  file too. The spec gives the default population of a create as: an unset lifecycle state
  becomes \<^verbatim>\<open>ACTIVE\<close>.
\<close>

definition populateDefaultsForLogBucket :: "'a pb_fields_scheme \<Rightarrow> 'a pb_fields_scheme" where
  "populateDefaultsForLogBucket obj =
     (if LifecycleState obj = LIFECYCLE_STATE_UNSPECIFIED then obj\<lparr>LifecycleState := ACTIVE\<rparr>
      else obj)"

section \<open>The handlers of the LoggingLink service\<close>

text \<open>\<^verbatim>\<open>createLinkDefaultObjects\<close>: the bucket gets a name only when the folder is set.\<close>

definition createLinkDefaultObjects :: "MockService \<Rightarrow> loggingLinkName \<Rightarrow> (error + unit) \<times> MockService" where
  "createLinkDefaultObjects s name =
     (let bucket = \<lparr>Name = [], Description = ''Default bucket'', CreateTime = None,
                    LifecycleState = ACTIVE, UpdateTime = None, RetentionDays = 30\<rparr>;
          bucket = (if folder name \<noteq> [] then
                      bucket\<lparr>Name := ''folders/'' @ folder name @ ''/locations/global/buckets/_Default''\<rparr>
                    else bucket)
      in createBucketIfNotExists s bucket)"

definition populateDefaultsForLoggingLink :: "'a pb_fields_scheme \<Rightarrow> 'a pb_fields_scheme" where
  "populateDefaultsForLoggingLink obj =
     (if LifecycleState obj = LIFECYCLE_STATE_UNSPECIFIED then obj\<lparr>LifecycleState := ACTIVE\<rparr>
      else obj)"

text \<open>
  A Get or Delete request carries the name only, and is that string here.
\<close>

definition GetLoggingLink :: "MockService \<Rightarrow> string \<Rightarrow> (error + LoggingLink) \<times> MockService" where
  "GetLoggingLink s req_Name =
     (case parseLoggingLinkName (Projects s) req_Name of
        Inl err \<Rightarrow> (Inl err, s)
      | Inr name \<Rightarrow>
     (case createLinkDefaultObjects s name of
        (Inl err, s1) \<Rightarrow> (Inl err, s1)
      | (Inr u, s1) \<Rightarrow>
     (case loggingLinkName_String name of
        Inl p \<Rightarrow> (Inl p, s1)
      | Inr fqn \<Rightarrow>
     (case storage_Get (storage_LoggingLink s1) fqn of
        Inl err \<Rightarrow>
          (if status_Code err = NotFound then
             (Inl (Status NotFound ''Bucket `%s` does not exist'' [BucketName name]), s1)
           else (Inl err, s1))
      | Inr obj \<Rightarrow> (Inr obj, s1)))))"

record CreateLoggingLinkRequest =
  cll_Parent :: string
  cll_BucketId :: string
  cll_LinkId :: string
  cll_LoggingLink :: "LoggingLink option"

text \<open>
  \<^verbatim>\<open>CreateLoggingLink\<close>. The time \<^verbatim>\<open>time.Now()\<close> is the parameter \<open>now\<close>. The clone of
  an absent body is a nil message, and \<^verbatim>\<open>obj.Name = fqn\<close> then panics.
\<close>

definition CreateLoggingLink ::
  "MockService \<Rightarrow> timestamp \<Rightarrow> CreateLoggingLinkRequest \<Rightarrow> (error + LoggingLink) \<times> MockService" where
  "CreateLoggingLink s now req =
     (let reqName = cll_Parent req @ ''/buckets/'' @ cll_BucketId req @ ''/links/'' @ cll_LinkId req in
      case parseLoggingLinkName (Projects s) reqName of
        Inl err \<Rightarrow> (Inl err, s)
      | Inr name \<Rightarrow>
     (case createLinkDefaultObjects s name of
        (Inl err, s1) \<Rightarrow> (Inl err, s1)
      | (Inr u, s1) \<Rightarrow>
     (case loggingLinkName_String name of
        Inl p \<Rightarrow> (Inl p, s1)
      | Inr fqn \<Rightarrow>
     (case bindE (assert_LoggingLink (proto_Clone (LoggingLinkMessage (cll_LoggingLink req)))) deref of
        Inl p \<Rightarrow> (Inl p, s1)
      | Inr obj \<Rightarrow>
         (let obj = obj\<lparr>Name := fqn\<rparr>;
              obj = obj\<lparr>CreateTime := Some now\<rparr>;
              obj = obj\<lparr>UpdateTime := Some now\<rparr>;
              obj = populateDefaultsForLogBucket obj
          in case storage_Create (storage_LoggingLink s1) fqn obj of
               Inl err \<Rightarrow> (Inl err, s1)
             | Inr st \<Rightarrow> (Inr obj, s1\<lparr>storage_LoggingLink := st\<rparr>))))))"

record FieldMask =
  Paths :: "string list"

record UpdateLoggingLinkRequest =
  ull_Name :: string
  ull_LoggingLink :: "LoggingLink option"
  ull_UpdateMask :: "FieldMask option"

text \<open>The getters of generated messages are nil-safe.\<close>

definition GetPaths :: "FieldMask option \<Rightarrow> string list" where
  "GetPaths m = (case m of None \<Rightarrow> [] | Some f \<Rightarrow> Paths f)"

definition GetDescription :: "('a pb_fields_scheme) option \<Rightarrow> string" where
  "GetDescription m = (case m of None \<Rightarrow> [] | Some l \<Rightarrow> Description l)"

text \<open>
  The loop of \<^verbatim>\<open>UpdateLoggingLink\<close> over the paths of the mask: \<^verbatim>\<open>"description"\<close>
  copies the description of the request into the working copy, any other path returns
  at once.
\<close>

fun applyPaths ::
  "string list \<Rightarrow> UpdateLoggingLinkRequest \<Rightarrow> 'a pb_fields_scheme \<Rightarrow> error + 'a pb_fields_scheme" where
  "applyPaths [] req updated = Inr updated"
| "applyPaths (path # paths) req updated =
     (if path = ''description'' then
        applyPaths paths req (updated\<lparr>Description := GetDescription (ull_LoggingLink req)\<rparr>)
      else Inl (Status InvalidArgument ''update_mask path %q not valid'' [path]))"

text \<open>
  The mask processing of \<^verbatim>\<open>UpdateLoggingLink\<close>: the check that the mask has a path,
  then the loop.
\<close>

definition applyUpdateMask ::
  "UpdateLoggingLinkRequest \<Rightarrow> 'a pb_fields_scheme \<Rightarrow> error + 'a pb_fields_scheme" where
  "applyUpdateMask req updated =
     (let paths = GetPaths (ull_UpdateMask req) in
      if length paths = 0 then Inl (Status InvalidArgument ''update_mask is required'' [])
      else applyPaths paths req updated)"

text \<open>
  \<^verbatim>\<open>UpdateLoggingLink\<close>. The record read from storage is a \<^verbatim>\<open>*pb.LoggingLink\<close>; its
  clone is asserted to be a \<^verbatim>\<open>*pb.LogBucket\<close>
  (\<^verbatim>\<open>updated := proto.Clone(existing).(*pb.LogBucket)\<close>), and the statements that follow
  work on that bucket and hand it to storage.
\<close>

definition UpdateLoggingLink ::
  "MockService \<Rightarrow> timestamp \<Rightarrow> UpdateLoggingLinkRequest \<Rightarrow> (error + LogBucket) \<times> MockService" where
  "UpdateLoggingLink s now req =
     (let reqName = ull_Name req in
      case parseLoggingLinkName (Projects s) reqName of
        Inl err \<Rightarrow> (Inl err, s)
      | Inr name \<Rightarrow>
     (case createLinkDefaultObjects s name of
        (Inl err, s1) \<Rightarrow> (Inl err, s1)
      | (Inr u, s1) \<Rightarrow>
     (case loggingLinkName_String name of
        Inl p \<Rightarrow> (Inl p, s1)
      | Inr fqn \<Rightarrow>
     (case storage_Get (storage_LoggingLink s1) fqn of
        Inl err \<Rightarrow> (Inl err, s1)
      | Inr existing \<Rightarrow>
     (case bindE (assert_LogBucket (proto_Clone (LoggingLinkMessage (Some existing)))) deref of
        Inl p \<Rightarrow> (Inl p, s1)
      | Inr updated \<Rightarrow>
         (let updated = updated\<lparr>CreateTime := CreateTime existing\<rparr>;
              updated = updated\<lparr>UpdateTime := Some now\<rparr>
          in case applyUpdateMask req updated of
               Inl err \<Rightarrow> (Inl err, s1)
             | Inr updated \<Rightarrow>
                 (let updated = populateDefaultsForLoggingLink updated
                  in case storage_Update (storage_LogBucket s1) fqn updated of
                       Inl err \<Rightarrow> (Inl err, s1)
                     | Inr st \<Rightarrow> (Inr updated, s1\<lparr>storage_LogBucket := st\<rparr>))))))))"

definition DeleteLoggingLink :: "MockService \<Rightarrow> string \<Rightarrow> (error + unit) \<times> MockService" where
  "DeleteLoggingLink s req_Name =
     (case parseLoggingLinkName (Projects s) req_Name of
        Inl err \<Rightarrow> (Inl err, s)
      | Inr name \<Rightarrow>
     (case createLinkDefaultObjects s name of
        (Inl err, s1) \<Rightarrow> (Inl err, s1)
      | (Inr u, s1) \<Rightarrow>
     (case loggingLinkName_String name of
        Inl p \<Rightarrow> (Inl p, s1)
      | Inr fqn \<Rightarrow>
     (case storage_Delete (storage_LoggingLink s1) fqn of
        Inl err \<Rightarrow> (Inl err, s1)
      | Inr st \<Rightarrow> (Inr (), s1\<lparr>storage_LoggingLink := st\<rparr>)))))"

section \<open>The handlers of the Link service\<close>

text \<open>
  The second service has the calls of \<^verbatim>\<open>createLinkDefaultObjects\<close> and the call of
  \<^verbatim>\<open>populateDefaultsForLogBucket\<close> commented out, and has no update handler. Its own
  \<^verbatim>\<open>populateDefaultsForLoggingLink\<close> is defined and never called.
\<close>

definition GetLink :: "MockService \<Rightarrow> string \<Rightarrow> (error + Link) \<times> MockService" where
  "GetLink s req_Name =
     (case parseLoggingLinkName (Projects s) req_Name of
        Inl err \<Rightarrow> (Inl err, s)
      | Inr name \<Rightarrow>
     (case loggingLinkName_String name of
        Inl p \<Rightarrow> (Inl p, s)
      | Inr fqn \<Rightarrow>
     (case storage_Get (storage_Link s) fqn of
        Inl err \<Rightarrow>
          (if status_Code err = NotFound then
             (Inl (Status NotFound ''Bucket `%s` does not exist'' [BucketName name]), s)
           else (Inl err, s))
      | Inr obj \<Rightarrow> (Inr obj, s))))"

record CreateLinkRequest =
  cl_Parent :: string
  cl_LinkId :: string
  cl_Link :: "Link option"

definition CreateLink ::
  "MockService \<Rightarrow> timestamp \<Rightarrow> CreateLinkRequest \<Rightarrow> (error + Link) \<times> MockService" where
  "CreateLink s now req =
     (let reqName = cl_Parent req @ ''/links/'' @ cl_LinkId req in
      case parseLoggingLinkName (Projects s) reqName of
        Inl err \<Rightarrow> (Inl err, s)
      | Inr name \<Rightarrow>
     (case loggingLinkName_String name of
        Inl p \<Rightarrow> (Inl p, s)
      | Inr fqn \<Rightarrow>
     (case bindE (assert_Link (proto_Clone (LinkMessage (cl_Link req)))) deref of
        Inl p \<Rightarrow> (Inl p, s)
      | Inr obj \<Rightarrow>
         (let obj = obj\<lparr>Name := fqn\<rparr>;
              obj = obj\<lparr>CreateTime := Some now\<rparr>
          in case storage_Create (storage_Link s) fqn obj of
               Inl err \<Rightarrow> (Inl err, s)
             | Inr st \<Rightarrow> (Inr obj, s\<lparr>storage_Link := st\<rparr>)))))"

definition DeleteLink :: "MockService \<Rightarrow> string \<Rightarrow> (error + unit) \<times> MockService" where
  "DeleteLink s req_Name =
     (case parseLoggingLinkName (Projects s) req_Name of
        Inl err \<Rightarrow> (Inl err, s)
      | Inr name \<Rightarrow>
     (case loggingLinkName_String name of
        Inl p \<Rightarrow> (Inl p, s)
      | Inr fqn \<Rightarrow>
     (case storage_Delete (storage_Link s) fqn of
        Inl err \<Rightarrow> (Inl err, s)
      | Inr st \<Rightarrow> (Inr (), s\<lparr>storage_Link := st\<rparr>))))"

section \<open>The field mapper\<close>

text \<open>
  The mapper works on the wire message \<^verbatim>\<open>pb.Link\<close> of the package
  \<^verbatim>\<open>cloud.google.com/go/logging/apiv2/loggingpb\<close>, not on the message of the mock
  service, and on the Kubernetes-side \<^verbatim>\<open>krm.LoggingLinkSpec\<close>; both types are outside
  the files at hand. The records below hold, for each side, every field that the mapper
  names, under the name the mapper gives it. The mapper names the dataset in two
  spellings: it reads \<^verbatim>\<open>in.BigQueryDataset\<close> and writes \<^verbatim>\<open>out.BigqueryDataset\<close>, in
  both directions. It writes \<^verbatim>\<open>out.LifecycleState\<close> and reads through the getter
  \<^verbatim>\<open>in.GetLifeCycleState()\<close>, in both directions; the getter is the field
  \<^verbatim>\<open>LifeCycleState\<close> here. Identifiers that differ are different fields, and a field
  that a function does not assign keeps the zero value of the fresh \<^verbatim>\<open>&pb.Link{}\<close> or
  \<^verbatim>\<open>&krm.LoggingLinkSpec{}\<close>.
\<close>

record loggingpb_Link =
  lpb_Name :: string
  lpb_Description :: string
  lpb_CreateTime :: "timestamp option"
  lpb_LifecycleState :: LifecycleState
  lpb_LifeCycleState :: LifecycleState
  lpb_BigqueryDataset :: "BigQueryDataset option"
  lpb_BigQueryDataset :: "BigQueryDataset option"

record krm_BigQueryDataset =
  DatasetID :: "string option"

record LoggingLinkSpec =
  spec_Name :: "string option"
  spec_Description :: "string option"
  spec_CreateTime :: "string option"
  spec_LifecycleState :: "string option"
  spec_LifeCycleState :: "string option"
  spec_BigqueryDataset :: "krm_BigQueryDataset option"
  spec_BigQueryDataset :: "krm_BigQueryDataset option"

text \<open>
  Modelled from the spec: \<^verbatim>\<open>direct.LazyPtr\<close>, absent from the files at hand. The spec
  gives the accessors as default-value-aware: an absent wire field (the zero value, here
  the empty string) maps to an absent domain field.
\<close>

definition LazyPtr :: "string \<Rightarrow> string option" where
  "LazyPtr v = (if v = [] then None else Some v)"

text \<open>
  Modelled from the spec: \<^verbatim>\<open>direct.ValueOf\<close>, absent from the files at hand: an absent
  domain field maps back to the zero value.
\<close>

definition ValueOf :: "string option \<Rightarrow> string" where
  "ValueOf p = (case p of None \<Rightarrow> [] | Some v \<Rightarrow> v)"

text \<open>
  The timestamp and enum conversions of package \<^verbatim>\<open>direct\<close> are external collaborators
  of which the spec says only that timestamps become ISO-8601 strings. They are
  parameters of the mapper.
\<close>

record direct =
  StringTimestamp_FromProto :: "timestamp option \<Rightarrow> string option"
  StringTimestamp_ToProto :: "string option \<Rightarrow> timestamp option"
  Enum_FromProto :: "LifecycleState \<Rightarrow> string option"
  Enum_ToProto :: "string option \<Rightarrow> LifecycleState"

definition BigQueryDataset_FromProto :: "BigQueryDataset option \<Rightarrow> krm_BigQueryDataset option" where
  "BigQueryDataset_FromProto i =
     (case i of
        None \<Rightarrow> None
      | Some d \<Rightarrow> Some \<lparr>DatasetID = LazyPtr (DatasetId d)\<rparr>)"

definition BigQueryDataset_ToProto :: "krm_BigQueryDataset option \<Rightarrow> BigQueryDataset option" where
  "BigQueryDataset_ToProto i =
     (case i of
        None \<Rightarrow> None
      | Some d \<Rightarrow> Some \<lparr>DatasetId = ValueOf (DatasetID d)\<rparr>)"

text \<open>
  \<^verbatim>\<open>LoggingLinkSpec_FromProto\<close>: five assignments to a fresh \<^verbatim>\<open>krm.LoggingLinkSpec\<close>.
\<close>

definition LoggingLinkSpec_FromProto :: "direct \<Rightarrow> loggingpb_Link option \<Rightarrow> LoggingLinkSpec option" where
  "LoggingLinkSpec_FromProto mapCtx i =
     (case i of
        None \<Rightarrow> None
      | Some l \<Rightarrow>
          Some \<lparr>spec_Name = LazyPtr (lpb_Name l),
                spec_Description = LazyPtr (lpb_Description l),
                spec_CreateTime = StringTimestamp_FromProto mapCtx (lpb_CreateTime l),
                spec_LifecycleState = Enum_FromProto mapCtx (lpb_LifeCycleState l),
                spec_LifeCycleState = None,
                spec_BigqueryDataset = BigQueryDataset_FromProto (lpb_BigQueryDataset l),
                spec_BigQueryDataset = None\<rparr>)"

text \<open>
  \<^verbatim>\<open>LoggingLinkSpec_ToProto\<close>: five assignments to a fresh \<^verbatim>\<open>pb.Link\<close>.
\<close>

definition LoggingLinkSpec_ToProto :: "direct \<Rightarrow> LoggingLinkSpec option \<Rightarrow> loggingpb_Link option" where
  "LoggingLinkSpec_ToProto mapCtx i =
     (case i of
        None \<Rightarrow> None
      | Some k \<Rightarrow>
          Some \<lparr>lpb_Name = ValueOf (spec_Name k),
                lpb_Description = ValueOf (spec_Description k),
                lpb_CreateTime = StringTimestamp_ToProto mapCtx (spec_CreateTime k),
                lpb_LifecycleState = Enum_ToProto mapCtx (spec_LifeCycleState k),
                lpb_LifeCycleState = LIFECYCLE_STATE_UNSPECIFIED,
                lpb_BigqueryDataset = BigQueryDataset_ToProto (spec_BigQueryDataset k),
                lpb_BigQueryDataset = None\<rparr>)"

section \<open>Path shapes and sample values\<close>

text \<open>
  The path grammar of the service: a parent kind, its identifier, and the location,
  bucket and link segments behind their keywords. A segment holds no separator.
\<close>

definition link_path :: "string \<Rightarrow> string \<Rightarrow> string \<Rightarrow> string \<Rightarrow> string \<Rightarrow> string" where
  "link_path kind ident loc bucket link =
     kind @ ''/'' @ ident @ ''/locations/'' @ loc @ ''/buckets/'' @ bucket @ ''/links/'' @ link"

definition segment :: "string \<Rightarrow> bool" where
  "segment t = (CHR ''/'' \<notin> set t)"

text \<open>
  The number of parent kinds that an identity has populated; the struct says of them:
  only one of project/folder/organization/billingAccount should be set.
\<close>

definition parent_kinds_set :: "loggingLinkName \<Rightarrow> nat" where
  "parent_kinds_set n =
     (if project n \<noteq> None then 1 else 0) + (if folder n \<noteq> [] then 1 else 0) +
     (if organization n \<noteq> [] then 1 else 0) + (if billingAccount n \<noteq> [] then 1 else 0)"

text \<open>
  Sample values at which the theorems below are instantiated: a resolver that knows the
  project \<^verbatim>\<open>p1\<close> only, a stored link under a folder, and a service that holds it.
\<close>

definition sample_Projects :: "string \<Rightarrow> error + ProjectData" where
  "sample_Projects i =
     (if i = ''p1'' then Inr \<lparr>ID = ''p1''\<rparr>
      else Inl (Status NotFound ''project %q not found'' [i]))"

definition sample_link :: LoggingLink where
  "sample_link =
     \<lparr>Name = ''folders/f1/locations/global/buckets/b1/links/l1'', Description = ''old'',
      CreateTime = Some 100, LifecycleState = ACTIVE, UpdateTime = Some 100\<rparr>"

definition sample_service :: MockService where
  "sample_service =
     \<lparr>Projects = sample_Projects,
      storage_LoggingLink = [''folders/f1/locations/global/buckets/b1/links/l1'' \<mapsto> sample_link],
      storage_LogBucket = Map.empty,
      storage_Link = Map.empty\<rparr>"

section \<open>Facts about the codec\<close>

lemmas codec_defs = parseLoggingLinkName_def shape_def and_also_def token_is_def index_def bindE_def
  loggingLinkName_String_def

lemmas handler_defs = createLinkDefaultObjects_def createBucketIfNotExists_def storage_Get_def
  storage_Create_def storage_Update_def storage_Delete_def proto_Clone_def deref_def

lemma strings_Split_not_Nil: "strings_Split s sep \<noteq> []"
  by (induction s) (auto split: list.splits)

lemma strings_Split_no_sep: "sep \<notin> set a \<Longrightarrow> strings_Split a sep = [a]"
  by (induction a) auto

lemma strings_Split_append:
  "sep \<notin> set a \<Longrightarrow> strings_Split (a @ sep # rest) sep = a # strings_Split rest sep"
  by (induction a) (auto split: list.splits)

lemma strings_Split_link_path:
  assumes "segment kind" "segment ident" "segment loc" "segment bucket" "segment link"
  shows "strings_Split (link_path kind ident loc bucket link) CHR ''/'' =
           [kind, ident, ''locations'', loc, ''buckets'', bucket, ''links'', link]"
proof -
  have step: "strings_Split (a @ CHR ''/'' # r) CHR ''/'' = a # strings_Split r CHR ''/''"
    if "segment a" for a r
    using that by (simp add: segment_def strings_Split_append)
  have last: "strings_Split link CHR ''/'' = [link]"
    using assms(5) by (simp add: segment_def strings_Split_no_sep)
  have kw: "segment ''locations''" "segment ''buckets''" "segment ''links''"
    by (simp_all add: segment_def)
  have "link_path kind ident loc bucket link =
        kind @ CHR ''/'' # (ident @ CHR ''/'' # (''locations'' @ CHR ''/'' # (loc @ CHR ''/'' #
          (''buckets'' @ CHR ''/'' # (bucket @ CHR ''/'' # (''links'' @ CHR ''/'' # link))))))"
    by (simp add: link_path_def)
  then show ?thesis
    by (simp only: step [OF assms(1)] step [OF assms(2)] step [OF assms(3)] step [OF assms(4)]
          step [OF kw(1)] step [OF kw(2)] step [OF kw(3)] last)
qed

lemma shape_eval:
  "shape [t0, t1, t2, t3, t4, t5, t6, t7] n kind =
     Inr (n = 8 \<and> t0 = kind \<and> t2 = ''locations'' \<and> t4 = ''buckets'' \<and> t6 = ''links'')"
  by (auto simp: shape_def and_also_def token_is_def index_def bindE_def)

lemma shape_6_not_True: "shape tokens 6 kind \<noteq> Inr True"
  by (auto simp: shape_def and_also_def token_is_def index_def bindE_def split: if_splits)

lemma shape_8_True:
  "shape tokens 8 kind = Inr True \<Longrightarrow>
     length tokens = 8 \<and> tokens ! 0 = kind \<and> tokens ! 2 = ''locations'' \<and>
     tokens ! 4 = ''buckets'' \<and> tokens ! 6 = ''links''"
  by (auto simp: shape_def and_also_def token_is_def index_def bindE_def split: if_splits)

text \<open>
  What the parser does with eight tokens that carry the three keywords: only the first
  token decides, and only \<^verbatim>\<open>projects\<close> and \<^verbatim>\<open>folders\<close> are accepted.
\<close>

lemma parse_tokens8:
  assumes "strings_Split name CHR ''/'' = [t0, t1, ''locations'', t3, ''buckets'', t5, ''links'', t7]"
  shows "parseLoggingLinkName R name =
     (if t0 = ''projects'' then
        (case R t1 of Inl e \<Rightarrow> Inl e
         | Inr p \<Rightarrow> Inr \<lparr>project = Some p, folder = [], organization = [], billingAccount = [],
             location = t3, BucketName = t5, LinkName = t7\<rparr>)
      else if t0 = ''folders'' then
        Inr \<lparr>project = None, folder = t1, organization = [], billingAccount = [],
             location = t3, BucketName = t5, LinkName = t7\<rparr>
      else Inl (Status InvalidArgument ''name %q is not valid'' [name]))"
  using assms
  by (simp add: parseLoggingLinkName_def shape_eval bindE_def index_def split: sum.splits)

lemma parse_projects_ok:
  assumes "segment pid" "segment loc" "segment bucket" "segment link" "R pid = Inr p"
  shows "parseLoggingLinkName R (link_path ''projects'' pid loc bucket link) =
           Inr \<lparr>project = Some p, folder = [], organization = [], billingAccount = [],
                location = loc, BucketName = bucket, LinkName = link\<rparr>"
proof -
  have "segment ''projects''" by (simp add: segment_def)
  from strings_Split_link_path [OF this assms(1-4)] assms(5)
  show ?thesis by (simp add: parse_tokens8)
qed

lemma parse_folders_ok:
  assumes "segment fid" "segment loc" "segment bucket" "segment link"
  shows "parseLoggingLinkName R (link_path ''folders'' fid loc bucket link) =
           Inr \<lparr>project = None, folder = fid, organization = [], billingAccount = [],
                location = loc, BucketName = bucket, LinkName = link\<rparr>"
proof -
  have "segment ''folders''" by (simp add: segment_def)
  from strings_Split_link_path [OF this assms]
  show ?thesis by (simp add: parse_tokens8)
qed

lemma parse_organizations_rejected:
  assumes "segment oid" "segment loc" "segment bucket" "segment link"
  shows "parseLoggingLinkName R (link_path ''organizations'' oid loc bucket link) =
           Inl (Status InvalidArgument ''name %q is not valid''
                  [link_path ''organizations'' oid loc bucket link])"
proof -
  have "segment ''organizations''" by (simp add: segment_def)
  from strings_Split_link_path [OF this assms]
  show ?thesis by (simp add: parse_tokens8)
qed

lemma parse_billingAccounts_rejected:
  assumes "segment aid" "segment loc" "segment bucket" "segment link"
  shows "parseLoggingLinkName R (link_path ''billingAccounts'' aid loc bucket link) =
           Inl (Status InvalidArgument ''name %q is not valid''
                  [link_path ''billingAccounts'' aid loc bucket link])"
proof -
  have "segment ''billingAccounts''" by (simp add: segment_def)
  from strings_Split_link_path [OF this assms]
  show ?thesis by (simp add: parse_tokens8)
qed

text \<open>
  The two branches that ask for six tokens read \<^verbatim>\<open>tokens[6]\<close> in their condition: on
  six tokens of the organization or billing account form the parser panics, and no
  successful parse ever sets those two fields.
\<close>

lemma parse_six_tokens_panics:
  assumes "strings_Split name CHR ''/'' = [t0, t1, ''locations'', t3, ''buckets'', t5]"
      and "t0 = ''organizations'' \<or> t0 = ''billingAccounts''"
  shows "parseLoggingLinkName R name = Inl (Panic (IndexOutOfRange 6 6))"
  using assms
  by (auto simp: parseLoggingLinkName_def shape_def and_also_def token_is_def index_def bindE_def)

lemma parse_never_organization:
  assumes "parseLoggingLinkName R name = Inr n"
  shows "organization n = [] \<and> billingAccount n = []"
  using assms
  by (auto simp: parseLoggingLinkName_def Let_def bindE_def shape_6_not_True
           split: sum.splits if_splits)

lemma parse_ok_is_project_or_folder:
  assumes "parseLoggingLinkName R name = Inr n"
  shows "(project n \<noteq> None \<and> folder n = [] \<and> organization n = [] \<and> billingAccount n = [] \<and>
          strings_Split name CHR ''/'' ! 0 = ''projects'') \<or>
         (project n = None \<and> organization n = [] \<and> billingAccount n = [] \<and>
          strings_Split name CHR ''/'' ! 0 = ''folders'' \<and>
          folder n = strings_Split name CHR ''/'' ! 1)"
  using assms
  by (auto simp: parseLoggingLinkName_def Let_def bindE_def shape_6_not_True index_def
           dest!: shape_8_True split: sum.splits if_splits)

text \<open>
  A successful parse sets at most one parent kind, and none only when the second token of
  the path is empty.
\<close>

lemma parse_at_most_one_parent_kind:
  assumes "parseLoggingLinkName R name = Inr n"
  shows "parent_kinds_set n = 1 \<or>
         (parent_kinds_set n = 0 \<and> strings_Split name CHR ''/'' ! 1 = [])"
  using assms
  by (auto simp: parseLoggingLinkName_def Let_def bindE_def shape_6_not_True index_def
                 parent_kinds_set_def
           dest!: shape_8_True split: sum.splits if_splits)

text \<open>
  Rendering then parsing gives the identity back for a folder, and for a project that the
  resolver maps to itself, when the fields are segments.
\<close>

lemma roundtrip_folder:
  assumes "folder n \<noteq> []" "organization n = []" "billingAccount n = []" "project n = None"
      and "segment (folder n)" "segment (location n)" "segment (BucketName n)" "segment (LinkName n)"
  shows "bindE (loggingLinkName_String n) (parseLoggingLinkName R) = Inr n"
proof -
  have "loggingLinkName_String n =
          Inr (link_path ''folders'' (folder n) (location n) (BucketName n) (LinkName n))"
    using assms(1,2) by (simp add: loggingLinkName_String_def link_path_def)
  then show ?thesis
    using parse_folders_ok [OF assms(5-8), of R] assms(1-4)
    by (simp add: bindE_def)
qed

lemma roundtrip_project:
  assumes "folder n = []" "organization n = []" "billingAccount n = []" "project n = Some p"
      and "R (ID p) = Inr p"
      and "segment (ID p)" "segment (location n)" "segment (BucketName n)" "segment (LinkName n)"
  shows "bindE (loggingLinkName_String n) (parseLoggingLinkName R) = Inr n"
proof -
  have "loggingLinkName_String n =
          Inr (link_path ''projects'' (ID p) (location n) (BucketName n) (LinkName n))"
    using assms(1-4) by (simp add: loggingLinkName_String_def link_path_def)
  then show ?thesis
    using parse_projects_ok [of "ID p" "location n" "BucketName n" "LinkName n" R p] assms
    by (simp add: bindE_def)
qed

section \<open>Facts about the handlers\<close>

text \<open>
  Providing the default bucket never fails and touches the bucket store only.
\<close>

lemma createLinkDefaultObjects_frame:
  "createLinkDefaultObjects s name = (r, s1) \<Longrightarrow>
     r = Inr () \<and> Projects s1 = Projects s \<and> storage_LoggingLink s1 = storage_LoggingLink s \<and>
     storage_Link s1 = storage_Link s"
  by (auto simp: createLinkDefaultObjects_def createBucketIfNotExists_def Let_def
           split: option.splits if_splits)

text \<open>
  The type assertion in \<^verbatim>\<open>UpdateLoggingLink\<close> fails on every record that storage
  returns: the handler returns no record at all, and panics whenever the record exists.
\<close>

lemma UpdateLoggingLink_never_returns:
  "fst (UpdateLoggingLink s now req) \<noteq> Inr r"
  by (auto simp: UpdateLoggingLink_def Let_def proto_Clone_def bindE_def
           split: sum.splits prod.splits)

lemma UpdateLoggingLink_existing_panics:
  assumes "parseLoggingLinkName (Projects s) (ull_Name req) = Inr name"
      and "loggingLinkName_String name = Inr fqn"
      and "storage_LoggingLink s fqn = Some existing"
  shows "fst (UpdateLoggingLink s now req) =
           Inl (Panic (InterfaceConversion ''*pb.LoggingLink'' ''*pb.LogBucket'')) \<and>
         storage_LoggingLink (snd (UpdateLoggingLink s now req)) = storage_LoggingLink s"
  using assms
  by (auto simp: UpdateLoggingLink_def Let_def proto_Clone_def bindE_def storage_Get_def
           dest!: createLinkDefaultObjects_frame
           split: sum.splits prod.splits option.splits)

text \<open>
  The mask processing taken by itself: an empty mask is refused, a mask of recognized
  paths sets the description, and the first unrecognized path is refused by name.
\<close>

lemma applyUpdateMask_empty:
  "GetPaths (ull_UpdateMask req) = [] \<Longrightarrow>
     applyUpdateMask req updated = Inl (Status InvalidArgument ''update_mask is required'' [])"
  by (simp add: applyUpdateMask_def)

lemma applyPaths_recognized:
  "\<forall>p \<in> set paths. p = ''description'' \<Longrightarrow> paths \<noteq> [] \<Longrightarrow>
     applyPaths paths req updated =
       Inr (updated\<lparr>Description := GetDescription (ull_LoggingLink req)\<rparr>)"
proof (induction paths arbitrary: updated)
  case Nil
  then show ?case by simp
next
  case (Cons p ps)
  then show ?case by (cases ps) auto
qed

lemma applyPaths_unrecognized:
  "\<exists>p \<in> set paths. p \<noteq> ''description'' \<Longrightarrow>
     \<exists>q \<in> set paths. q \<noteq> ''description'' \<and>
       applyPaths paths req updated = Inl (Status InvalidArgument ''update_mask path %q not valid'' [q])"
  by (induction paths arbitrary: updated) auto

lemma applyPaths_Inr_iff:
  "(\<exists>u. applyPaths paths req updated = Inr u) = (\<forall>p \<in> set paths. p = ''description'')"
  by (induction paths arbitrary: updated) auto

text \<open>
  What a successful create returns and stores, for each of the two services.
\<close>

lemma CreateLoggingLink_created:
  assumes "fst (CreateLoggingLink s now req) = Inr obj"
  shows "\<exists>name body.
           parseLoggingLinkName (Projects s)
             (cll_Parent req @ ''/buckets/'' @ cll_BucketId req @ ''/links/'' @ cll_LinkId req) = Inr name \<and>
           cll_LoggingLink req = Some body \<and>
           loggingLinkName_String name = Inr (Name obj) \<and>
           Description obj = Description body \<and>
           CreateTime obj = Some now \<and> UpdateTime obj = Some now \<and>
           LifecycleState obj =
             (if LifecycleState body = LIFECYCLE_STATE_UNSPECIFIED then ACTIVE
              else LifecycleState body) \<and>
           storage_LoggingLink (snd (CreateLoggingLink s now req)) (Name obj) = Some obj"
proof -
  let ?reqName = "cll_Parent req @ ''/buckets/'' @ cll_BucketId req @ ''/links/'' @ cll_LinkId req"
  obtain name where p: "parseLoggingLinkName (Projects s) ?reqName = Inr name"
    using assms by (cases "parseLoggingLinkName (Projects s) ?reqName")
      (simp_all add: CreateLoggingLink_def Let_def)
  obtain r s1 where d: "createLinkDefaultObjects s name = (r, s1)"
    by (cases "createLinkDefaultObjects s name")
  from createLinkDefaultObjects_frame [OF d] have r: "r = Inr ()" by simp
  obtain fqn where f: "loggingLinkName_String name = Inr fqn"
    using assms p d r by (cases "loggingLinkName_String name")
      (simp_all add: CreateLoggingLink_def Let_def)
  obtain body where b: "cll_LoggingLink req = Some body"
    using assms p d r f by (cases "cll_LoggingLink req")
      (simp_all add: CreateLoggingLink_def Let_def proto_Clone_def bindE_def deref_def)
  let ?obj = "populateDefaultsForLogBucket
                (body\<lparr>Name := fqn, CreateTime := Some now, UpdateTime := Some now\<rparr>)"
  have res: "CreateLoggingLink s now req =
          (case storage_Create (storage_LoggingLink s1) fqn ?obj of
             Inl err \<Rightarrow> (Inl err, s1)
           | Inr st \<Rightarrow> (Inr ?obj, s1\<lparr>storage_LoggingLink := st\<rparr>))"
    using p d r f b
    by (simp add: CreateLoggingLink_def Let_def proto_Clone_def bindE_def deref_def)
  have "obj = ?obj \<and> storage_LoggingLink (snd (CreateLoggingLink s now req)) fqn = Some ?obj"
    using assms unfolding res
    by (cases "storage_LoggingLink s1 fqn") (simp_all add: storage_Create_def)
  then show ?thesis using p f b by (simp add: populateDefaultsForLogBucket_def)
qed

lemma CreateLink_created:
  assumes "fst (CreateLink s now req) = Inr obj"
  shows "\<exists>name body.
           parseLoggingLinkName (Projects s) (cl_Parent req @ ''/links/'' @ cl_LinkId req) = Inr name \<and>
           cl_Link req = Some body \<and>
           loggingLinkName_String name = Inr (Name obj) \<and>
           obj = body\<lparr>Name := Name obj, CreateTime := Some now\<rparr> \<and>
           LifecycleState obj = LifecycleState body \<and>
           storage_Link (snd (CreateLink s now req)) (Name obj) = Some obj"
proof -
  let ?reqName = "cl_Parent req @ ''/links/'' @ cl_LinkId req"
  obtain name where p: "parseLoggingLinkName (Projects s) ?reqName = Inr name"
    using assms by (cases "parseLoggingLinkName (Projects s) ?reqName")
      (simp_all add: CreateLink_def Let_def)
  obtain fqn where f: "loggingLinkName_String name = Inr fqn"
    using assms p by (cases "loggingLinkName_String name")
      (simp_all add: CreateLink_def Let_def)
  obtain body where b: "cl_Link req = Some body"
    using assms p f by (cases "cl_Link req")
      (simp_all add: CreateLink_def Let_def proto_Clone_def bindE_def deref_def)
  let ?obj = "body\<lparr>Name := fqn, CreateTime := Some now\<rparr>"
  have res: "CreateLink s now req =
          (case storage_Create (storage_Link s) fqn ?obj of
             Inl err \<Rightarrow> (Inl err, s)
           | Inr st \<Rightarrow> (Inr ?obj, s\<lparr>storage_Link := st\<rparr>))"
    using p f b
    by (simp add: CreateLink_def Let_def proto_Clone_def bindE_def deref_def)
  have "obj = ?obj \<and> storage_Link (snd (CreateLink s now req)) fqn = Some ?obj"
    using assms unfolding res
    by (cases "storage_Link s fqn") (simp_all add: storage_Create_def)
  then show ?thesis using p f b by simp
qed

section \<open>Facts about the field mapper\<close>

lemma ValueOf_LazyPtr: "ValueOf (LazyPtr v) = v"
  by (simp add: ValueOf_def LazyPtr_def)

lemma BigQueryDataset_roundtrip: "BigQueryDataset_ToProto (BigQueryDataset_FromProto d) = d"
  by (cases d) (simp_all add: BigQueryDataset_ToProto_def BigQueryDataset_FromProto_def ValueOf_LazyPtr)

text \<open>
  What the mapper gives for a wire message mapped to the domain and back: name and
  description come back, the creation time comes back as the two conversions make it,
  and the lifecycle state and the dataset come back as those of an empty message,
  whatever the message held.
\<close>

lemma LoggingLinkSpec_ToProto_FromProto:
  "LoggingLinkSpec_ToProto mapCtx (LoggingLinkSpec_FromProto mapCtx (Some x)) =
     Some \<lparr>lpb_Name = lpb_Name x,
           lpb_Description = lpb_Description x,
           lpb_CreateTime =
             StringTimestamp_ToProto mapCtx (StringTimestamp_FromProto mapCtx (lpb_CreateTime x)),
           lpb_LifecycleState = Enum_ToProto mapCtx None,
           lpb_LifeCycleState = LIFECYCLE_STATE_UNSPECIFIED,
           lpb_BigqueryDataset = None,
           lpb_BigQueryDataset = None\<rparr>"
  by (simp add: LoggingLinkSpec_ToProto_def LoggingLinkSpec_FromProto_def ValueOf_LazyPtr
        BigQueryDataset_ToProto_def)

lemma LoggingLinkSpec_roundtrip_common_fields:
  assumes "LoggingLinkSpec_ToProto mapCtx (LoggingLinkSpec_FromProto mapCtx (Some x)) = Some y"
      and "StringTimestamp_ToProto mapCtx (StringTimestamp_FromProto mapCtx (lpb_CreateTime x)) =
             lpb_CreateTime x"
  shows "lpb_Name y = lpb_Name x \<and> lpb_Description y = lpb_Description x \<and>
         lpb_CreateTime y = lpb_CreateTime x"
  using assms unfolding LoggingLinkSpec_ToProto_FromProto by auto

section \<open>The claims\<close>

text \<open>
  Claim C1: every path of one of the four documented shapes parses, the organizations and
  billingAccounts shapes included. The code refuses both: an organization path and a
  billing account path of the documented shape have eight tokens, the two branches ask
  for six, and the parser answers \<^verbatim>\<open>InvalidArgument\<close>.
\<close>

theorem parseLoggingLinkName_rejects_organizations_billingAccounts:
  "parseLoggingLinkName R ''organizations/o1/locations/global/buckets/b1/links/l1'' =
     Inl (Status InvalidArgument ''name %q is not valid''
            [''organizations/o1/locations/global/buckets/b1/links/l1'']) \<and>
   parseLoggingLinkName R ''billingAccounts/a1/locations/global/buckets/b1/links/l1'' =
     Inl (Status InvalidArgument ''name %q is not valid''
            [''billingAccounts/a1/locations/global/buckets/b1/links/l1''])"
  by (simp add: parseLoggingLinkName_def shape_def and_also_def token_is_def index_def bindE_def)

text \<open>
  Claim C2: parsing the rendered path gives the identity back for each of the four parent
  kinds. For an identity with the organization set, and for one with the billing account
  set, the rendered path is refused by the parser.
\<close>

theorem roundtrip_fails_for_organization_billingAccount:
  "loggingLinkName_String
     \<lparr>project = None, folder = [], organization = ''o1'', billingAccount = [],
      location = ''global'', BucketName = ''b1'', LinkName = ''l1''\<rparr> =
     Inr ''organizations/o1/locations/global/buckets/b1/links/l1'' \<and>
   bindE (loggingLinkName_String
     \<lparr>project = None, folder = [], organization = ''o1'', billingAccount = [],
      location = ''global'', BucketName = ''b1'', LinkName = ''l1''\<rparr>) (parseLoggingLinkName R) =
     Inl (Status InvalidArgument ''name %q is not valid''
            [''organizations/o1/locations/global/buckets/b1/links/l1'']) \<and>
   bindE (loggingLinkName_String
     \<lparr>project = None, folder = [], organization = [], billingAccount = ''a1'',
      location = ''global'', BucketName = ''b1'', LinkName = ''l1''\<rparr>) (parseLoggingLinkName R) =
     Inl (Status InvalidArgument ''name %q is not valid''
            [''billingAccounts/a1/locations/global/buckets/b1/links/l1''])"
  by (simp add: loggingLinkName_String_def parseLoggingLinkName_def shape_def and_also_def
        token_is_def index_def bindE_def)

text \<open>
  Claim C3: an update with the mask \<^verbatim>\<open>["description"]\<close> returns and persists the
  record with the new description. On the stored sample link the handler panics at the
  type assertion of the clone, and the stored record stays as it was.
\<close>

theorem UpdateLoggingLink_description_mask_panics:
  "fst (UpdateLoggingLink sample_service 200
         \<lparr>ull_Name = ''folders/f1/locations/global/buckets/b1/links/l1'',
          ull_LoggingLink = Some (sample_link\<lparr>Description := ''new''\<rparr>),
          ull_UpdateMask = Some \<lparr>Paths = [''description'']\<rparr>\<rparr>) =
     Inl (Panic (InterfaceConversion ''*pb.LoggingLink'' ''*pb.LogBucket'')) \<and>
   storage_LoggingLink (snd (UpdateLoggingLink sample_service 200
         \<lparr>ull_Name = ''folders/f1/locations/global/buckets/b1/links/l1'',
          ull_LoggingLink = Some (sample_link\<lparr>Description := ''new''\<rparr>),
          ull_UpdateMask = Some \<lparr>Paths = [''description'']\<rparr>\<rparr>))
       ''folders/f1/locations/global/buckets/b1/links/l1'' = Some sample_link"
  by (simp add: UpdateLoggingLink_def sample_service_def codec_defs handler_defs)

text \<open>
  Claim C4: in both create handlers a record created with unspecified lifecycle state is
  stored and returned as \<^verbatim>\<open>ACTIVE\<close>. \<^verbatim>\<open>CreateLink\<close> applies no defaults: the record
  it returns and stores keeps the unspecified state.
\<close>

theorem CreateLink_keeps_lifecycle_unspecified:
  "fst (CreateLink sample_service 200
         \<lparr>cl_Parent = ''folders/f1/locations/global/buckets/b1'', cl_LinkId = ''l2'',
          cl_Link = Some \<lparr>Name = [], Description = ''d'', CreateTime = None,
                          LifecycleState = LIFECYCLE_STATE_UNSPECIFIED, BigqueryDataset = None\<rparr>\<rparr>) =
     Inr \<lparr>Name = ''folders/f1/locations/global/buckets/b1/links/l2'', Description = ''d'',
          CreateTime = Some 200, LifecycleState = LIFECYCLE_STATE_UNSPECIFIED,
          BigqueryDataset = None\<rparr> \<and>
   storage_Link (snd (CreateLink sample_service 200
         \<lparr>cl_Parent = ''folders/f1/locations/global/buckets/b1'', cl_LinkId = ''l2'',
          cl_Link = Some \<lparr>Name = [], Description = ''d'', CreateTime = None,
                          LifecycleState = LIFECYCLE_STATE_UNSPECIFIED, BigqueryDataset = None\<rparr>\<rparr>))
       ''folders/f1/locations/global/buckets/b1/links/l2'' =
     Some \<lparr>Name = ''folders/f1/locations/global/buckets/b1/links/l2'', Description = ''d'',
           CreateTime = Some 200, LifecycleState = LIFECYCLE_STATE_UNSPECIFIED,
           BigqueryDataset = None\<rparr>"
  by (simp add: CreateLink_def sample_service_def codec_defs handler_defs Let_def)

text \<open>
  Claim C5: an update with an empty mask fails with \<^verbatim>\<open>InvalidArgument\<close>,
  "update_mask is required", and one with an unrecognized path fails with
  \<^verbatim>\<open>InvalidArgument\<close> naming the path. On the stored sample link the handler panics at
  the type assertion before it looks at the mask, for the empty mask and for the mask
  \<^verbatim>\<open>["unknownField"]\<close> alike.
\<close>

theorem UpdateLoggingLink_panics_before_mask_check:
  "fst (UpdateLoggingLink sample_service 200
         \<lparr>ull_Name = ''folders/f1/locations/global/buckets/b1/links/l1'',
          ull_LoggingLink = Some (sample_link\<lparr>Description := ''new''\<rparr>),
          ull_UpdateMask = Some \<lparr>Paths = []\<rparr>\<rparr>) =
     Inl (Panic (InterfaceConversion ''*pb.LoggingLink'' ''*pb.LogBucket'')) \<and>
   fst (UpdateLoggingLink sample_service 200
         \<lparr>ull_Name = ''folders/f1/locations/global/buckets/b1/links/l1'',
          ull_LoggingLink = Some (sample_link\<lparr>Description := ''new''\<rparr>),
          ull_UpdateMask = Some \<lparr>Paths = [''unknownField'']\<rparr>\<rparr>) =
     Inl (Panic (InterfaceConversion ''*pb.LoggingLink'' ''*pb.LogBucket''))"
  by (simp add: UpdateLoggingLink_def sample_service_def codec_defs handler_defs)

text \<open>
  Claim C6: an update whose mask holds an unrecognized path after a recognized one returns
  \<^verbatim>\<open>InvalidArgument\<close> and leaves the stored record as it was. On the stored sample
  link the handler returns a panic, not \<^verbatim>\<open>InvalidArgument\<close>; the stored record is
  unchanged.
\<close>

theorem UpdateLoggingLink_mixed_mask_panics:
  "fst (UpdateLoggingLink sample_service 200
         \<lparr>ull_Name = ''folders/f1/locations/global/buckets/b1/links/l1'',
          ull_LoggingLink = Some (sample_link\<lparr>Description := ''new''\<rparr>),
          ull_UpdateMask = Some \<lparr>Paths = [''description'', ''unknownField'']\<rparr>\<rparr>) =
     Inl (Panic (InterfaceConversion ''*pb.LoggingLink'' ''*pb.LogBucket'')) \<and>
   storage_LoggingLink (snd (UpdateLoggingLink sample_service 200
         \<lparr>ull_Name = ''folders/f1/locations/global/buckets/b1/links/l1'',
          ull_LoggingLink = Some (sample_link\<lparr>Description := ''new''\<rparr>),
          ull_UpdateMask = Some \<lparr>Paths = [''description'', ''unknownField'']\<rparr>\<rparr>))
       ''folders/f1/locations/global/buckets/b1/links/l1'' = Some sample_link"
  by (simp add: UpdateLoggingLink_def sample_service_def codec_defs handler_defs)

text \<open>
  Claim C7: mapping a wire message to the domain and back reproduces every populated field
  that both schemas have: name, description, create time, lifecycle state, dataset id.
  For a message that holds the state \<^verbatim>\<open>ACTIVE\<close> and the dataset \<^verbatim>\<open>ds\<close>, under
  either spelling, the message that comes back holds no dataset under either spelling,
  and its lifecycle state is what the enum conversion makes of an absent string, whatever
  the conversions are.
\<close>

theorem LoggingLinkSpec_roundtrip_loses_dataset_and_state:
  "LoggingLinkSpec_ToProto mapCtx (LoggingLinkSpec_FromProto mapCtx
     (Some \<lparr>lpb_Name = ''folders/f1/locations/global/buckets/b1/links/l1'',
            lpb_Description = ''d'',
            lpb_CreateTime = Some 100,
            lpb_LifecycleState = ACTIVE,
            lpb_LifeCycleState = ACTIVE,
            lpb_BigqueryDataset = Some \<lparr>DatasetId = ''ds''\<rparr>,
            lpb_BigQueryDataset = Some \<lparr>DatasetId = ''ds''\<rparr>\<rparr>)) =
     Some \<lparr>lpb_Name = ''folders/f1/locations/global/buckets/b1/links/l1'',
           lpb_Description = ''d'',
           lpb_CreateTime =
             StringTimestamp_ToProto mapCtx (StringTimestamp_FromProto mapCtx (Some 100)),
           lpb_LifecycleState = Enum_ToProto mapCtx None,
           lpb_LifeCycleState = LIFECYCLE_STATE_UNSPECIFIED,
           lpb_BigqueryDataset = None,
           lpb_BigQueryDataset = None\<rparr>"
  by (simp add: LoggingLinkSpec_ToProto_def LoggingLinkSpec_FromProto_def ValueOf_def LazyPtr_def
        BigQueryDataset_ToProto_def BigQueryDataset_FromProto_def)

text \<open>
  Claim C8: for a path of the projects shape whose project the resolver does not know,
  the parser returns the resolver's error as it is, and so does every handler that calls
  the parser, leaving the service as it was.
\<close>

theorem unknown_project_error_propagates:
  assumes seg: "segment pid" "segment loc" "segment bucket" "segment link"
      and unknown: "Projects s pid = Inl e"
  shows "parseLoggingLinkName (Projects s) (link_path ''projects'' pid loc bucket link) = Inl e \<and>
         GetLoggingLink s (link_path ''projects'' pid loc bucket link) = (Inl e, s) \<and>
         DeleteLoggingLink s (link_path ''projects'' pid loc bucket link) = (Inl e, s) \<and>
         UpdateLoggingLink s now (ureq\<lparr>ull_Name := link_path ''projects'' pid loc bucket link\<rparr>) = (Inl e, s) \<and>
         CreateLoggingLink s now
           (creq\<lparr>cll_Parent := ''projects/'' @ pid @ ''/locations/'' @ loc,
                 cll_BucketId := bucket, cll_LinkId := link\<rparr>) = (Inl e, s) \<and>
         GetLink s (link_path ''projects'' pid loc bucket link) = (Inl e, s) \<and>
         DeleteLink s (link_path ''projects'' pid loc bucket link) = (Inl e, s) \<and>
         CreateLink s now
           (lreq\<lparr>cl_Parent := ''projects/'' @ pid @ ''/locations/'' @ loc @ ''/buckets/'' @ bucket,
                 cl_LinkId := link\<rparr>) = (Inl e, s)"
proof -
  have "segment ''projects''" by (simp add: segment_def)
  from strings_Split_link_path [OF this seg] unknown
  have p: "parseLoggingLinkName (Projects s) (link_path ''projects'' pid loc bucket link) = Inl e"
    by (simp add: parse_tokens8)
  have c1: "(''projects/'' @ pid @ ''/locations/'' @ loc) @ ''/buckets/'' @ bucket @ ''/links/'' @ link
              = link_path ''projects'' pid loc bucket link"
    by (simp add: link_path_def)
  have c2: "(''projects/'' @ pid @ ''/locations/'' @ loc @ ''/buckets/'' @ bucket) @ ''/links/'' @ link
              = link_path ''projects'' pid loc bucket link"
    by (simp add: link_path_def)
  have g: "GetLoggingLink s (link_path ''projects'' pid loc bucket link) = (Inl e, s)"
    by (simp add: GetLoggingLink_def p)
  have d: "DeleteLoggingLink s (link_path ''projects'' pid loc bucket link) = (Inl e, s)"
    by (simp add: DeleteLoggingLink_def p)
  have u: "UpdateLoggingLink s now (ureq\<lparr>ull_Name := link_path ''projects'' pid loc bucket link\<rparr>) = (Inl e, s)"
    by (simp add: UpdateLoggingLink_def p)
  have c: "CreateLoggingLink s now
           (creq\<lparr>cll_Parent := ''projects/'' @ pid @ ''/locations/'' @ loc,
                 cll_BucketId := bucket, cll_LinkId := link\<rparr>) = (Inl e, s)"
  proof -
    have sel: "cll_Parent (creq\<lparr>cll_Parent := ''projects/'' @ pid @ ''/locations/'' @ loc,
                 cll_BucketId := bucket, cll_LinkId := link\<rparr>) = ''projects/'' @ pid @ ''/locations/'' @ loc"
      "cll_BucketId (creq\<lparr>cll_Parent := ''projects/'' @ pid @ ''/locations/'' @ loc,
                 cll_BucketId := bucket, cll_LinkId := link\<rparr>) = bucket"
      "cll_LinkId (creq\<lparr>cll_Parent := ''projects/'' @ pid @ ''/locations/'' @ loc,
                 cll_BucketId := bucket, cll_LinkId := link\<rparr>) = link"
      by simp_all
    show ?thesis
      unfolding CreateLoggingLink_def Let_def sel c1 p by simp
  qed
  have gl: "GetLink s (link_path ''projects'' pid loc bucket link) = (Inl e, s)"
    by (simp add: GetLink_def p)
  have dl: "DeleteLink s (link_path ''projects'' pid loc bucket link) = (Inl e, s)"
    by (simp add: DeleteLink_def p)
  have cl: "CreateLink s now
           (lreq\<lparr>cl_Parent := ''projects/'' @ pid @ ''/locations/'' @ loc @ ''/buckets/'' @ bucket,
                 cl_LinkId := link\<rparr>) = (Inl e, s)"
  proof -
    have sel: "cl_Parent (lreq\<lparr>cl_Parent := ''projects/'' @ pid @ ''/locations/'' @ loc @ ''/buckets/'' @ bucket,
                 cl_LinkId := link\<rparr>) = ''projects/'' @ pid @ ''/locations/'' @ loc @ ''/buckets/'' @ bucket"
      "cl_LinkId (lreq\<lparr>cl_Parent := ''projects/'' @ pid @ ''/locations/'' @ loc @ ''/buckets/'' @ bucket,
                 cl_LinkId := link\<rparr>) = link"
      by simp_all
    show ?thesis
      unfolding CreateLink_def Let_def sel c2 p by simp
  qed
  from p g d u c gl dl cl show ?thesis by simp
qed

theorem unknown_project_error_propagates_witness:
  "parseLoggingLinkName (Projects sample_service)
     ''projects/unknown-proj/locations/global/buckets/b/links/l'' =
     Inl (Status NotFound ''project %q not found'' [''unknown-proj'']) \<and>
   GetLoggingLink sample_service ''projects/unknown-proj/locations/global/buckets/b/links/l'' =
     (Inl (Status NotFound ''project %q not found'' [''unknown-proj'']), sample_service)"
proof -
  have seg: "segment ''unknown-proj''" "segment ''global''" "segment ''b''" "segment ''l''"
    by (simp_all add: segment_def)
  have unknown: "Projects sample_service ''unknown-proj'' =
                   Inl (Status NotFound ''project %q not found'' [''unknown-proj''])"
    by (simp add: sample_service_def sample_Projects_def)
  have path: "link_path ''projects'' ''unknown-proj'' ''global'' ''b'' ''l'' =
                ''projects/unknown-proj/locations/global/buckets/b/links/l''"
    by (simp add: link_path_def)
  from unknown_project_error_propagates [OF seg unknown] show ?thesis
    unfolding path by blast
qed

text \<open>
  Claim C9: every identity that a successful parse returns has exactly one of the four
  parent kinds populated. A folder path with an empty identifier parses, and its
  identity has none populated, against the struct's own word that one of them is set;
  \<^verbatim>\<open>String\<close> relies on it, and the handlers that render the name panic on the nil
  project.
\<close>

theorem parse_empty_folder_has_no_parent_kind:
  "parseLoggingLinkName sample_Projects ''folders//locations/global/buckets/b1/links/l1'' =
     Inr \<lparr>project = None, folder = [], organization = [], billingAccount = [],
          location = ''global'', BucketName = ''b1'', LinkName = ''l1''\<rparr> \<and>
   parent_kinds_set \<lparr>project = None, folder = [], organization = [], billingAccount = [],
          location = ''global'', BucketName = ''b1'', LinkName = ''l1''\<rparr> = 0 \<and>
   fst (GetLink sample_service ''folders//locations/global/buckets/b1/links/l1'') =
     Inl (Panic NilPointerDereference) \<and>
   fst (GetLoggingLink sample_service ''folders//locations/global/buckets/b1/links/l1'') =
     Inl (Panic NilPointerDereference)"
  by (simp add: codec_defs parent_kinds_set_def GetLink_def GetLoggingLink_def
        sample_service_def handler_defs)

text \<open>
  Claim C10: rendering is partial. An identity with organization, folder and billing
  account empty and a nil project makes \<^verbatim>\<open>String\<close> panic on the nil pointer; with any
  of the four populated, \<^verbatim>\<open>String\<close> returns a path.
\<close>

theorem loggingLinkName_String_partial:
  "(organization n = [] \<and> folder n = [] \<and> billingAccount n = [] \<and> project n = None
      \<longrightarrow> loggingLinkName_String n = Inl (Panic NilPointerDereference)) \<and>
   (organization n \<noteq> [] \<or> folder n \<noteq> [] \<or> billingAccount n \<noteq> [] \<or> project n \<noteq> None
      \<longrightarrow> (\<exists>path. loggingLinkName_String n = Inr path))"
  by (auto simp: loggingLinkName_String_def split: option.splits)

theorem loggingLinkName_String_partial_witness:
  "loggingLinkName_String
     \<lparr>project = None, folder = [], organization = [], billingAccount = [],
      location = ''global'', BucketName = ''b1'', LinkName = ''l1''\<rparr> =
     Inl (Panic NilPointerDereference) \<and>
   (\<exists>path. loggingLinkName_String
     \<lparr>project = Some \<lparr>ID = ''p1''\<rparr>, folder = [], organization = [], billingAccount = [],
      location = ''global'', BucketName = ''b1'', LinkName = ''l1''\<rparr> = Inr path)"
  using loggingLinkName_String_partial [of "\<lparr>project = None, folder = [], organization = [], billingAccount = [],
      location = ''global'', BucketName = ''b1'', LinkName = ''l1''\<rparr>"]
    loggingLinkName_String_partial [of "\<lparr>project = Some \<lparr>ID = ''p1''\<rparr>, folder = [], organization = [], billingAccount = [],
      location = ''global'', BucketName = ''b1'', LinkName = ''l1''\<rparr>"]
  by simp

end
